theory Spec2Isabelle
  imports Main "HOL-Library.AList"
begin

section \<open>The command bot of twitchio.ext.commands (bot.py)\<close>

text \<open>
  A shallow embedding of class \<open>Bot\<close>. The bot object is a record that every method takes
  and returns; a method that can raise returns the exception (or \<open>None\<close>) together with
  the bot as the raise left it, since Python keeps the mutations made before a raise.
  Dictionaries are association lists in insertion order (\<open>AList.update\<close> overwrites in
  place or appends, as a Python dict does). The model is of the default configuration
  \<open>case_insensitive=False\<close>, where \<open>_commands\<close> and \<open>_command_aliases\<close> are plain dicts.
  Exceptions are the subclasses of \<open>Exception\<close>.
\<close>

subsection \<open>Exceptions and values\<close>

datatype load_failure = NameExists | NotCoroutine | NameOrAliasExists

datatype exn =
    TypeError
  | ValueError
  | AttributeError
  | KeyError
  | IndexError
  | ImportError
  | TwitchCommandError string load_failure
  | CommandNotFound "string option"
  | CheckFailure string string
  | CommandOnCooldown string
  | UserError string

text \<open>
  \<open>except TwitchCommandError\<close>: errors.py is not part of the sources, so only an exception
  raised as \<open>TwitchCommandError\<close> itself is taken to be caught.
\<close>

fun is_TwitchCommandError :: "exn \<Rightarrow> bool" where
  "is_TwitchCommandError (TwitchCommandError _ _) = True"
| "is_TwitchCommandError _ = False"

datatype pyval = PyBool bool | PyNone | PyCoroutine "exn + pyval"

text \<open>\<open>await v\<close>: a coroutine object gives its outcome, any other value here is not awaitable.\<close>

fun await :: "pyval \<Rightarrow> exn + pyval" where
  "await (PyCoroutine r) = r"
| "await _ = Inl TypeError"

record message =
  content :: string

text \<open>
  User code (callbacks, hooks, predicates, buckets) is given by its outcome on the inbound
  message: \<open>None\<close> when it returns, \<open>Some e\<close> when it raises \<open>e\<close>.
\<close>

type_synonym outcome = "exn option"

subsection \<open>Checks and cooldowns\<close>

record predicate =
  pred_repr :: string
  pred_awaitable :: bool
  pred_call :: "message \<Rightarrow> exn + pyval"

text \<open>
  \<open>def p(ctx)\<close> and \<open>async def p(ctx)\<close>. Neither function object is awaitable
  (\<open>inspect.isawaitable\<close> is False on a function); calling the second returns a coroutine
  object.
\<close>

definition sync_def :: "string \<Rightarrow> (message \<Rightarrow> exn + pyval) \<Rightarrow> predicate" where
  "sync_def nm f = \<lparr>pred_repr = nm, pred_awaitable = False, pred_call = f\<rparr>"

definition async_def :: "string \<Rightarrow> (message \<Rightarrow> exn + pyval) \<Rightarrow> predicate" where
  "async_def nm f =
     \<lparr>pred_repr = nm, pred_awaitable = False, pred_call = (\<lambda>m. Inr (PyCoroutine (f m)))\<rparr>"

record bucket =
  bucket_key :: string
  update_bucket :: "message \<Rightarrow> outcome"

type_synonym cooldown = "message \<Rightarrow> exn + bucket list"

subsection \<open>Commands and contexts\<close>

datatype owner = OwnerBot | OwnerCog string

type_synonym parsed = "(nat \<times> string) list"

record command =
  cmd_name :: string
  cmd_aliases :: "string list"
  cmd_is_coroutine :: bool
  cmd_callback :: "message \<Rightarrow> outcome"
  cmd_instance :: "owner option"
  cmd_checks :: "predicate list"
  cmd_no_global_checks :: bool
  cmd_cooldowns :: "cooldown list"
  cmd_before_invoke :: "(message \<Rightarrow> outcome) option"
  cmd_after_invoke :: "(message \<Rightarrow> outcome) option"
  cmd_event_error :: "(message \<Rightarrow> exn \<Rightarrow> outcome) option"
  cmd_parse_args :: "parsed \<Rightarrow> exn + (string list \<times> (string \<times> string) list)"

datatype pyobj = CommandObj command | OtherObj

record Context =
  ctx_message :: message
  ctx_prefix :: "string option"
  ctx_command :: "command option"
  ctx_args :: "string list"
  ctx_kwargs :: "(string \<times> string) list"
  ctx_valid :: bool

subsection \<open>Events, tasks and the bot\<close>

datatype evarg = ArgContext Context | ArgError exn | ArgData string

datatype callable_kind = CoroutineFunction | CoroutineObject | PlainCallable

record handler =
  h_name :: string
  h_kind :: callable_kind
  h_event :: "string option"
  h_run :: "evarg list \<Rightarrow> outcome"

datatype task = Wrapped handler "evarg list"

datatype call =
    CalledCheck string
  | UpdatedBucket string
  | CalledGlobalBefore
  | CalledBefore string
  | CalledCallback string
  | CalledErrorHook string
  | CalledAfter string
  | CalledGlobalAfter

record pymodule =
  mod_name :: string
  mod_has_prepare :: bool

record cog =
  cog_name :: string
  cog_module :: string

text \<open>
  \<open>self._prefix\<close>: a str, a list, tuple or set of str (in iteration order), a callable
  (given by what calling it, and awaiting it when it is a coroutine function, gives), or
  any other value.
\<close>

datatype prefix_cfg =
    Static "string + string list"
  | StaticOther
  | Callable "message \<Rightarrow> exn + prefix_cfg"

text \<open>
  The bot. \<open>tasks\<close> is what \<open>self.loop.create_task\<close> has queued, \<open>attrs\<close> what
  \<open>getattr(self, name, None)\<close> finds, \<open>sys_modules\<close> is \<open>sys.modules\<close>. The last four
  fields are observations, not fields of the class: the events given to \<open>run_event\<close>, the
  user code called, the warnings issued and the tracebacks printed, each in order.
\<close>

record bot =
  bot_prefix :: prefix_cfg
  commands :: "(string \<times> command) list"
  command_aliases :: "(string \<times> string) list"
  modules :: "(string \<times> pymodule) list"
  cogs :: "(string \<times> cog) list"
  events :: "(string \<times> handler list) list"
  bot_checks :: "predicate list"
  attrs :: "(string \<times> handler) list"
  global_before_invoke :: "message \<Rightarrow> outcome"
  global_after_invoke :: "message \<Rightarrow> outcome"
  tasks :: "task list"
  sys_modules :: "(string \<times> pymodule) list"
  published :: "(string \<times> evarg list) list"
  calls :: "call list"
  warned :: "string list"
  printed :: "exn list"

definition has_key :: "'k \<Rightarrow> ('k \<times> 'v) list \<Rightarrow> bool" where
  "has_key k d \<longleftrightarrow> k \<in> fst ` set d"

subsection \<open>add\_command and the constructor's member scan\<close>

text \<open>
  The loop over \<open>command.aliases\<close>. \<open>del self.commands[command.name]\<close> raises KeyError on
  a missing key.
\<close>

fun add_aliases :: "bot \<Rightarrow> command \<Rightarrow> string list \<Rightarrow> exn option \<times> bot" where
  "add_aliases b c [] = (None, b)"
| "add_aliases b c (alias # rest) =
     (if has_key alias (commands b)
      then (if has_key (cmd_name c) (commands b)
            then (Some (TwitchCommandError (cmd_name c) NameOrAliasExists),
                  b\<lparr>commands := AList.delete (cmd_name c) (commands b)\<rparr>)
            else (Some KeyError, b))
      else add_aliases
             (b\<lparr>command_aliases := AList.update alias (cmd_name c) (command_aliases b)\<rparr>)
             c rest)"

definition add_command :: "bot \<Rightarrow> pyobj \<Rightarrow> exn option \<times> bot" where
  "add_command b obj =
     (case obj of
        OtherObj \<Rightarrow> (Some TypeError, b)
      | CommandObj c \<Rightarrow>
          if has_key (cmd_name c) (commands b)
          then (Some (TwitchCommandError (cmd_name c) NameExists), b)
          else if \<not> cmd_is_coroutine c
          then (Some (TwitchCommandError (cmd_name c) NotCoroutine), b)
          else
            let b1 = b\<lparr>commands := AList.update (cmd_name c) c (commands b)\<rparr>
            in (if cmd_aliases c = [] then (None, b1)
                else add_aliases b1 c (cmd_aliases c)))"

definition get_command :: "bot \<Rightarrow> string \<Rightarrow> command option" where
  "get_command b nm =
     (let nm' = (case map_of (command_aliases b) nm of None \<Rightarrow> nm | Some n \<Rightarrow> n)
      in map_of (commands b) nm')"

text \<open>
  \<open>__init__commands__\<close>, over the pairs that \<open>inspect.getmembers(self)\<close> returns.
\<close>

fun init_commands :: "bot \<Rightarrow> (string \<times> pyobj) list \<Rightarrow> exn option \<times> bot" where
  "init_commands b [] = (None, b)"
| "init_commands b ((_, OtherObj) # rest) = init_commands b rest"
| "init_commands b ((_, CommandObj c) # rest) =
     (case add_command b (CommandObj (c\<lparr>cmd_instance := Some OwnerBot\<rparr>)) of
        (None, b1) \<Rightarrow> init_commands b1 rest
      | (Some e, b1) \<Rightarrow>
          if is_TwitchCommandError e
          then init_commands (b1\<lparr>printed := printed b1 @ [e]\<rparr>) rest
          else (Some e, b1))"

subsection \<open>Prefixes and contexts\<close>

definition get_prefixes :: "bot \<Rightarrow> message \<Rightarrow> exn + (string + string list)" where
  "get_prefixes b m =
     (case bot_prefix b of
        Static v \<Rightarrow> Inr v
      | StaticOther \<Rightarrow> Inl TypeError
      | Callable f \<Rightarrow>
          (case f m of
             Inl e \<Rightarrow> Inl e
           | Inr (Static v) \<Rightarrow> Inr v
           | Inr _ \<Rightarrow> Inl TypeError))"

definition startswith :: "string \<Rightarrow> string \<Rightarrow> bool" where
  "startswith s p \<longleftrightarrow> take (length p) s = p"

fun first_prefix :: "string \<Rightarrow> string list \<Rightarrow> string option" where
  "first_prefix s [] = None"
| "first_prefix s (p # ps) = (if startswith s p then Some p else first_prefix s ps)"

definition get_prefix :: "bot \<Rightarrow> message \<Rightarrow> exn + string option" where
  "get_prefix b m =
     (case get_prefixes b m of
        Inl e \<Rightarrow> Inl e
      | Inr (Inr ps) \<Rightarrow> Inr (first_prefix (content m) ps)
      | Inr (Inl p) \<Rightarrow> Inr (if startswith (content m) p then Some p else None))"

text \<open>\<open>not prefix\<close>: None and the empty string are falsy.\<close>

definition no_prefix :: "string option \<Rightarrow> bool" where
  "no_prefix p \<longleftrightarrow> p = None \<or> p = Some []"

text \<open>
  \<open>get_context\<close>. \<open>StringParser.process_string\<close> is not part of the sources; it is the
  parameter \<open>process_string\<close>, returning the dict from token index to token.
\<close>

definition get_context ::
    "(string \<Rightarrow> exn + parsed) \<Rightarrow> bot \<Rightarrow> message \<Rightarrow> exn + Context" where
  "get_context process_string b m =
     (case get_prefix b m of
        Inl e \<Rightarrow> Inl e
      | Inr prefix \<Rightarrow>
          if no_prefix prefix
          then Inr \<lparr>ctx_message = m, ctx_prefix = prefix, ctx_command = None,
                    ctx_args = [], ctx_kwargs = [], ctx_valid = False\<rparr>
          else
            (case process_string
                    (dropWhile (\<lambda>ch. ch = CHR '' '')
                       (drop (length (the prefix)) (content m))) of
               Inl e \<Rightarrow> Inl e
             | Inr parsed \<Rightarrow>
                 (case map_of parsed 0 of
                    None \<Rightarrow> Inl (CommandNotFound None)
                  | Some tok \<Rightarrow>
                      (let rest = AList.delete 0 parsed;
                           nm = (case map_of (command_aliases b) tok of
                                   None \<Rightarrow> tok | Some n \<Rightarrow> n)
                       in (case map_of (commands b) nm of
                             None \<Rightarrow> Inl (CommandNotFound (Some nm))
                           | Some c \<Rightarrow>
                               (case cmd_parse_args c rest of
                                  Inl e \<Rightarrow> Inl e
                                | Inr (args, kwargs) \<Rightarrow>
                                    Inr \<lparr>ctx_message = m, ctx_prefix = prefix,
                                         ctx_command = Some c, ctx_args = args,
                                         ctx_kwargs = kwargs, ctx_valid = True\<rparr>))))))"

subsection \<open>run\_event\<close>

definition create_task :: "bot \<Rightarrow> task \<Rightarrow> bot" where
  "create_task b t = b\<lparr>tasks := tasks b @ [t]\<rparr>"

text \<open>\<open>inspect.iscoroutine\<close> holds of coroutine objects only, not of coroutine functions.\<close>

definition iscoroutine :: "handler \<Rightarrow> bool" where
  "iscoroutine h \<longleftrightarrow> h_kind h = CoroutineObject"

definition run_event :: "bot \<Rightarrow> string \<Rightarrow> evarg list \<Rightarrow> bot" where
  "run_event b nm args =
     (let b0 = b\<lparr>published := published b @ [(nm, args)]\<rparr>;
          b1 = (case map_of (attrs b0) nm of
                  None \<Rightarrow> b0
                | Some inner_cb \<Rightarrow>
                    if iscoroutine inner_cb then create_task b0 (Wrapped inner_cb args)
                    else b0\<lparr>warned := warned b0 @ [nm]\<rparr>)
      in (case map_of (events b1) nm of
            None \<Rightarrow> b1
          | Some hs \<Rightarrow> foldl (\<lambda>s h. create_task s (Wrapped h args)) b1 hs))"

text \<open>
  \<open>await func(*args, **kwargs)\<close> inside \<open>wrapped\<close>: a coroutine object is not callable.
\<close>

definition await_call :: "handler \<Rightarrow> evarg list \<Rightarrow> outcome" where
  "await_call h args = (if h_kind h = CoroutineObject then Some TypeError else h_run h args)"

text \<open>Running one queued task, the body of \<open>wrapped\<close>.\<close>

definition run_task :: "bot \<Rightarrow> task \<Rightarrow> bot" where
  "run_task b t =
     (case t of Wrapped func args \<Rightarrow>
        (case await_call func args of
           None \<Rightarrow> b
         | Some e \<Rightarrow> run_event b ''error'' [ArgError e]))"

subsection \<open>add\_event\<close>

text \<open>\<open>callback._event = event_name\<close>: a coroutine object takes no new attribute.\<close>

definition set_event :: "handler \<Rightarrow> string \<Rightarrow> exn + handler" where
  "set_event h nm =
     (if h_kind h = CoroutineObject then Inl AttributeError else Inr (h\<lparr>h_event := Some nm\<rparr>))"

definition add_event :: "bot \<Rightarrow> handler \<Rightarrow> string option \<Rightarrow> exn option \<times> bot" where
  "add_event b callback nm =
     (if \<not> iscoroutine callback then (Some ValueError, b)
      else
        let event_name = (case nm of
                            None \<Rightarrow> h_name callback
                          | Some n \<Rightarrow> if n = [] then h_name callback else n)
        in (case set_event callback event_name of
              Inl e \<Rightarrow> (Some e, b)
            | Inr cb \<Rightarrow>
                (case map_of (events b) event_name of
                   Some hs \<Rightarrow>
                     (None, b\<lparr>events := AList.update event_name (hs @ [cb]) (events b)\<rparr>)
                 | None \<Rightarrow>
                     (None, b\<lparr>events := AList.update event_name [cb] (events b)\<rparr>))))"

subsection \<open>Checks\<close>

datatype check_result = CheckTrue | CheckError exn

text \<open>
  The value bound to \<open>result\<close>: the predicate's call is awaited only where
  \<open>inspect.isawaitable(predicate)\<close> holds.
\<close>

definition eval_check :: "predicate \<Rightarrow> message \<Rightarrow> exn + pyval" where
  "eval_check p m =
     (if pred_awaitable p
      then (case pred_call p m of Inl e \<Rightarrow> Inl e | Inr v \<Rightarrow> await v)
      else pred_call p m)"

text \<open>The \<open>for predicate in checks\<close> loop inside \<open>try ... except Exception as e: return e\<close>.\<close>

fun run_checks :: "bot \<Rightarrow> string \<Rightarrow> message \<Rightarrow> predicate list \<Rightarrow> check_result \<times> bot" where
  "run_checks b cn m [] = (CheckTrue, b)"
| "run_checks b cn m (p # ps) =
     (let b1 = b\<lparr>calls := calls b @ [CalledCheck (pred_repr p)]\<rparr>
      in (case eval_check p m of
            Inl e \<Rightarrow> (CheckError e, b1)
          | Inr v \<Rightarrow>
              if v = PyBool False
              then (CheckError (CheckFailure (pred_repr p) cn), b1)
              else run_checks b1 cn m ps))"

definition effective_checks :: "bot \<Rightarrow> command \<Rightarrow> predicate list" where
  "effective_checks b c =
     (if \<not> cmd_no_global_checks c then bot_checks b @ cmd_checks c else cmd_checks c)"

definition handle_checks :: "bot \<Rightarrow> Context \<Rightarrow> (exn + check_result) \<times> bot" where
  "handle_checks b ctx =
     (case ctx_command ctx of
        None \<Rightarrow> (Inl AttributeError, b)
      | Some c \<Rightarrow>
          if effective_checks b c = [] then (Inr CheckTrue, b)
          else (case run_checks b (cmd_name c) (ctx_message ctx) (effective_checks b c) of
                  (r, b1) \<Rightarrow> (Inr r, b1)))"

subsection \<open>Cooldowns\<close>

fun is_CommandOnCooldown :: "exn \<Rightarrow> bool" where
  "is_CommandOnCooldown (CommandOnCooldown _) = True"
| "is_CommandOnCooldown _ = False"

text \<open>
  The \<open>for bucket in buckets\<close> loop inside \<open>try ... except CommandOnCooldown as e\<close>: the
  first bucket that raises ends the loop.
\<close>

fun update_buckets :: "bot \<Rightarrow> message \<Rightarrow> bucket list \<Rightarrow> (exn + exn list) \<times> bot" where
  "update_buckets b m [] = (Inr [], b)"
| "update_buckets b m (bk # rest) =
     (let b1 = b\<lparr>calls := calls b @ [UpdatedBucket (bucket_key bk)]\<rparr>
      in (case update_bucket bk m of
            None \<Rightarrow> update_buckets b1 m rest
          | Some e \<Rightarrow> if is_CommandOnCooldown e then (Inr [e], b1) else (Inl e, b1)))"

text \<open>
  \<open>_run_cooldowns\<close>: \<open>Inr None\<close> is the return of None after an IndexError, \<open>Inr (Some es)\<close>
  the return of the list \<open>expired\<close>.
\<close>

definition run_cooldowns :: "bot \<Rightarrow> Context \<Rightarrow> (exn + exn list option) \<times> bot" where
  "run_cooldowns b ctx =
     (case ctx_command ctx of
        None \<Rightarrow> (Inl AttributeError, b)
      | Some c \<Rightarrow>
          (case cmd_cooldowns c of
             [] \<Rightarrow> (Inr None, b)
           | g # _ \<Rightarrow>
               (case g (ctx_message ctx) of
                  Inl e \<Rightarrow> if e = IndexError then (Inr None, b) else (Inl e, b)
                | Inr buckets \<Rightarrow>
                    (case update_buckets b (ctx_message ctx) buckets of
                       (Inl e, b1) \<Rightarrow> (Inl e, b1)
                     | (Inr expired, b1) \<Rightarrow> (Inr (Some expired), b1)))))"

subsection \<open>invoke and handle\_commands\<close>

text \<open>The local \<open>try_run\<close>, applied to the outcome of awaiting \<open>func\<close>.\<close>

definition try_run :: "bot \<Rightarrow> Context \<Rightarrow> bool \<Rightarrow> outcome \<Rightarrow> bot" where
  "try_run b ctx to_command r =
     (case r of
        None \<Rightarrow> b
      | Some e \<Rightarrow>
          if \<not> to_command then run_event b ''error'' [ArgError e]
          else run_event b ''command_error'' [ArgContext ctx, ArgError e])"

definition called :: "bot \<Rightarrow> call \<Rightarrow> bot" where
  "called b c = b\<lparr>calls := calls b @ [c]\<rparr>"

text \<open>Lines 220 to 244 of \<open>invoke\<close>: the hooks around the callback.\<close>

definition run_callback :: "bot \<Rightarrow> Context \<Rightarrow> command \<Rightarrow> bot" where
  "run_callback b ctx c =
     (let m = ctx_message ctx;
          b1 = try_run (called b CalledGlobalBefore) ctx False (global_before_invoke b m);
          b2 = (case cmd_before_invoke c of
                  None \<Rightarrow> b1
                | Some hook \<Rightarrow> try_run (called b1 (CalledBefore (cmd_name c))) ctx True (hook m));
          b3 = called b2 (CalledCallback (cmd_name c));
          b4 = (case cmd_callback c m of
                  None \<Rightarrow> b3
                | Some e \<Rightarrow>
                    run_event
                      (case cmd_event_error c of
                         None \<Rightarrow> b3
                       | Some hook \<Rightarrow>
                           try_run (called b3 (CalledErrorHook (cmd_name c))) ctx False (hook m e))
                      ''command_error'' [ArgContext ctx, ArgError e]);
          b5 = (case cmd_after_invoke c of
                  None \<Rightarrow> b4
                | Some hook \<Rightarrow> try_run (called b4 (CalledAfter (cmd_name c))) ctx True (hook m))
      in try_run (called b5 CalledGlobalAfter) ctx False (global_after_invoke b5 m))"

definition invoke :: "bot \<Rightarrow> Context \<Rightarrow> exn option \<times> bot" where
  "invoke b ctx =
     (if no_prefix (ctx_prefix ctx) then (None, b)
      else
        (case handle_checks b ctx of
           (Inl e, b1) \<Rightarrow> (Some e, b1)
         | (Inr (CheckError e), b1) \<Rightarrow>
             (None, run_event b1 ''command_error'' [ArgContext ctx, ArgError e])
         | (Inr CheckTrue, b1) \<Rightarrow>
             (case run_cooldowns b1 ctx of
                (Inl e, b2) \<Rightarrow> (Some e, b2)
              | (Inr (Some (e # _)), b2) \<Rightarrow>
                  (None, run_event b2 ''command_error'' [ArgContext ctx, ArgError e])
              | (Inr _, b2) \<Rightarrow>
                  (case ctx_command ctx of
                     None \<Rightarrow> (Some AttributeError, b2)
                   | Some c \<Rightarrow> (None, run_callback b2 ctx c)))))"

definition handle_commands ::
    "(string \<Rightarrow> exn + parsed) \<Rightarrow> bot \<Rightarrow> message \<Rightarrow> exn option \<times> bot" where
  "handle_commands process_string b m =
     (case get_context process_string b m of
        Inl e \<Rightarrow> (Some e, b)
      | Inr ctx \<Rightarrow> invoke b ctx)"

subsection \<open>Modules\<close>

text \<open>
  What lies outside the class: \<open>import_module\<close> is the import system finding and running a
  module that \<open>sys.modules\<close> does not hold, \<open>prepare\<close> the module's own \<open>prepare(bot)\<close>.
\<close>

record importer =
  import_module :: "string \<Rightarrow> exn + pymodule"
  prepare :: "pymodule \<Rightarrow> bot \<Rightarrow> exn option \<times> bot"

definition importlib_import_module :: "importer \<Rightarrow> bot \<Rightarrow> string \<Rightarrow> (exn + pymodule) \<times> bot" where
  "importlib_import_module env b nm =
     (case map_of (sys_modules b) nm of
        Some md \<Rightarrow> (Inr md, b)
      | None \<Rightarrow>
          (case import_module env nm of
             Inl e \<Rightarrow> (Inl e, b)
           | Inr md \<Rightarrow> (Inr md, b\<lparr>sys_modules := AList.update nm md (sys_modules b)\<rparr>)))"

definition load_module :: "importer \<Rightarrow> bot \<Rightarrow> string \<Rightarrow> exn option \<times> bot" where
  "load_module env b nm =
     (if has_key nm (modules b) then (Some ValueError, b)
      else
        (case importlib_import_module env b nm of
           (Inl e, b1) \<Rightarrow> (Some e, b1)
         | (Inr md, b1) \<Rightarrow>
             if mod_has_prepare md
             then (case prepare env md b1 of
                     (Some e, b2) \<Rightarrow> (Some e, b2)
                   | (None, b2) \<Rightarrow> (None, b2\<lparr>modules := AList.update nm md (modules b2)\<rparr>))
             else if has_key nm (sys_modules b1)
             then (Some ImportError, b1\<lparr>sys_modules := AList.delete nm (sys_modules b1)\<rparr>)
             else (Some KeyError, b1)))"

text \<open>
  \<open>for name, x in d\<close> over a dict iterates its keys, and each key, a str, is unpacked
  into two variables: a key of two characters gives two one-character strs, any other
  length raises ValueError.
\<close>

fun unpack_key :: "string \<Rightarrow> exn + string \<times> string" where
  "unpack_key [a, b] = Inr ([a], [b])"
| "unpack_key _ = Inl ValueError"

text \<open>
  The three scans of \<open>reload_module\<close> (\<open>for name, cog in self._cogs\<close>,
  \<open>for name, cmd in self._commands\<close>, \<open>for name, cmd in self._command_aliases\<close>): the
  first iteration unpacks the first key and then reads \<open>cog.__module__\<close> or
  \<open>cmd._callback\<close> of a str, which has neither attribute. An empty dict lets the scan
  pass and saves nothing.
\<close>

definition scan_keys :: "(string \<times> 'v) list \<Rightarrow> exn option" where
  "scan_keys d =
     (case d of
        [] \<Rightarrow> None
      | (k, _) # _ \<Rightarrow>
          (case unpack_key k of
             Inl e \<Rightarrow> Some e
           | Inr _ \<Rightarrow> Some AttributeError))"

definition dict_update :: "('k \<times> 'v) list \<Rightarrow> ('k \<times> 'v) list \<Rightarrow> ('k \<times> 'v) list" where
  "dict_update d other = foldl (\<lambda>acc (k, v). AList.update k v acc) d other"

definition reload_module :: "importer \<Rightarrow> bot \<Rightarrow> string \<Rightarrow> exn option \<times> bot" where
  "reload_module env b nm =
     (case map_of (modules b) nm of
        None \<Rightarrow> (Some ValueError, b)
      | Some md \<Rightarrow>
          (let b1 = b\<lparr>modules := AList.delete nm (modules b)\<rparr>
           in (case scan_keys (cogs b1) of
                 Some e \<Rightarrow> (Some e, b1)
               | None \<Rightarrow>
                   (case scan_keys (commands b1) of
                      Some e \<Rightarrow> (Some e, b1)
                    | None \<Rightarrow>
                        (case scan_keys (command_aliases b1) of
                           Some e \<Rightarrow> (Some e, b1)
                         | None \<Rightarrow>
                             if \<not> has_key nm (sys_modules b1) then (Some KeyError, b1)
                             else
                               (case load_module env
                                       (b1\<lparr>sys_modules := AList.delete nm (sys_modules b1)\<rparr>)
                                       nm of
                                  (None, b3) \<Rightarrow> (None, b3)
                                | (Some e, b3) \<Rightarrow>
                                    (Some e,
                                     b3\<lparr>sys_modules := AList.update nm md (sys_modules b3),
                                        modules := AList.update nm md (modules b3),
                                        command_aliases := dict_update (command_aliases b3) [],
                                        commands := dict_update (commands b3) [],
                                        cogs := dict_update (cogs b3) []\<rparr>)))))))"

subsection \<open>Concrete bots, commands and messages\<close>

text \<open>A bot constructed with \<open>prefix='!'\<close>, before anything is registered.\<close>

definition bot0 :: bot where
  "bot0 =
     \<lparr>bot_prefix = Static (Inl ''!''), commands = [], command_aliases = [], modules = [],
      cogs = [], events = [], bot_checks = [], attrs = [],
      global_before_invoke = (\<lambda>_. None), global_after_invoke = (\<lambda>_. None),
      tasks = [], sys_modules = [], published = [], calls = [], warned = [], printed = []\<rparr>"

text \<open>
  \<open>Command(name=nm, func=f, aliases=als)\<close> for an \<open>async def f(ctx)\<close> that returns, with
  no checks, cooldowns or hooks.
\<close>

definition simple_command :: "string \<Rightarrow> string list \<Rightarrow> command" where
  "simple_command nm als =
     \<lparr>cmd_name = nm, cmd_aliases = als, cmd_is_coroutine = True, cmd_callback = (\<lambda>_. None),
      cmd_instance = None, cmd_checks = [], cmd_no_global_checks = False, cmd_cooldowns = [],
      cmd_before_invoke = None, cmd_after_invoke = None, cmd_event_error = None,
      cmd_parse_args = (\<lambda>_. Inr ([], []))\<rparr>"

definition bot_with :: "command list \<Rightarrow> bot" where
  "bot_with cs = foldl (\<lambda>b c. snd (add_command b (CommandObj c))) bot0 cs"

text \<open>An event handler written \<open>async def nm(*args)\<close>: a coroutine function.\<close>

definition async_handler :: "string \<Rightarrow> (evarg list \<Rightarrow> outcome) \<Rightarrow> handler" where
  "async_handler nm f = \<lparr>h_name = nm, h_kind = CoroutineFunction, h_event = None, h_run = f\<rparr>"

text \<open>
  A tokenizer for text that holds no space and no quote: the whole text is token 0, and
  empty text has no token.
\<close>

definition one_token :: "string \<Rightarrow> exn + parsed" where
  "one_token s = Inr (if s = [] then [] else [(0, s)])"

text \<open>
  The Context that \<open>get_context\<close> builds for the text \<open>s\<close>, matched prefix \<open>!\<close> and
  resolved command \<open>c\<close>.
\<close>

definition context_for :: "command \<Rightarrow> string \<Rightarrow> Context" where
  "context_for c s =
     \<lparr>ctx_message = \<lparr>content = s\<rparr>, ctx_prefix = Some ''!'', ctx_command = Some c,
      ctx_args = [], ctx_kwargs = [], ctx_valid = True\<rparr>"

text \<open>A command \<open>boom\<close> whose callback raises and that has an after-invoke hook.\<close>

definition raising_command :: command where
  "raising_command =
     (simple_command ''boom'' [])
       \<lparr>cmd_callback := (\<lambda>_. Some (UserError ''failed'')),
        cmd_after_invoke := Some (\<lambda>_. None)\<rparr>"

text \<open>A command \<open>hello\<close> with the given checks, and one with the given cooldown groups.\<close>

definition checked_command :: "predicate list \<Rightarrow> command" where
  "checked_command ps = (simple_command ''hello'' [])\<lparr>cmd_checks := ps\<rparr>"


definition denied_ctx :: Context where
  "denied_ctx =
     context_for (checked_command [sync_def ''is_mod'' (\<lambda>_. Inr (PyBool False))]) ''!hello''"

definition broken_ctx :: Context where
  "broken_ctx =
     context_for (checked_command [sync_def ''is_mod'' (\<lambda>_. Inl (UserError ''db down''))])
       ''!hello''"


text \<open>A check lets the loop go on: it returns a value that is not False.\<close>

definition check_passes :: "predicate \<Rightarrow> message \<Rightarrow> bool" where
  "check_passes q m \<longleftrightarrow>
     (case eval_check q m of Inl _ \<Rightarrow> False | Inr v \<Rightarrow> v \<noteq> PyBool False)"

text \<open>Two subscribers of \<open>event_join\<close>, the first of which raises.\<close>

definition first_handler :: handler where
  "first_handler = async_handler ''first'' (\<lambda>_. Some (UserError ''bad''))"

definition second_handler :: handler where
  "second_handler = async_handler ''second'' (\<lambda>_. None)"

definition two_subscribers :: bot where
  "two_subscribers = bot0\<lparr>events := [(''event_join'', [first_handler, second_handler])]\<rparr>"

text \<open>A loaded module \<open>plugin\<close> beside one registered command.\<close>

definition plugin :: pymodule where
  "plugin = \<lparr>mod_name = ''plugin'', mod_has_prepare = True\<rparr>"

definition bot_with_plugin :: bot where
  "bot_with_plugin =
     (bot_with [simple_command ''hello'' []])
       \<lparr>modules := [(''plugin'', plugin)], sys_modules := [(''plugin'', plugin)]\<rparr>"

section \<open>Registration\<close>

lemma add_aliases_error_class:
  "has_key (cmd_name c) (commands b) \<Longrightarrow> add_aliases b c als = (Some e, b')
     \<Longrightarrow> is_TwitchCommandError e"
  by (induction b c als rule: add_aliases.induct) (auto split: if_splits)

lemma add_command_error_class:
  "add_command b (CommandObj c) = (Some e, b') \<Longrightarrow> is_TwitchCommandError e"
  by (auto simp: add_command_def Let_def has_key_def AList.dom_update
           split: if_splits dest!: add_aliases_error_class[rotated])

text \<open>
  C2, evaluated where it fails. With \<open>a\<close> registered, registering \<open>b\<close> with aliases
  \<open>x\<close> and \<open>a\<close> raises at the second alias; the name \<open>b\<close> is removed again, but the
  alias \<open>x \<mapsto> b\<close> written one iteration earlier stays in \<open>_command_aliases\<close>, which was
  empty before the call.
\<close>

theorem add_command_leaves_alias_behind:
  "add_command (bot_with [simple_command ''a'' []])
               (CommandObj (simple_command ''b'' [''x'', ''a'']))
   = (Some (TwitchCommandError ''b'' NameOrAliasExists),
      (bot_with [simple_command ''a'' []])\<lparr>command_aliases := [(''x'', ''b'')]\<rparr>)"
  by (simp add: bot_with_def bot0_def simple_command_def add_command_def has_key_def)

text \<open>
  C10: \<open>__init__commands__\<close> never raises, whatever the members are, and it is the left
  fold over the members that passes every Command to \<open>add_command\<close> in turn, keeps the
  bot as a failed registration left it, prints that failure and goes on.
\<close>

theorem init_commands_registers_every_member:
  "init_commands b ms =
     (None,
      foldl (\<lambda>s obj. case obj of
                 OtherObj \<Rightarrow> s
               | CommandObj c \<Rightarrow>
                   (case add_command s (CommandObj (c\<lparr>cmd_instance := Some OwnerBot\<rparr>)) of
                      (None, s1) \<Rightarrow> s1
                    | (Some e, s1) \<Rightarrow> s1\<lparr>printed := printed s1 @ [e]\<rparr>))
            b (map snd ms))"
proof (induction b ms rule: init_commands.induct)
  case (1 b)
  show ?case by simp
next
  case (2 b uu rest)
  then show ?case by simp
next
  case (3 b uv c rest)
  show ?case
  proof (cases "add_command b (CommandObj (c\<lparr>cmd_instance := Some OwnerBot\<rparr>))")
    case (Pair r b1)
    show ?thesis
    proof (cases r)
      case None
      with Pair 3 show ?thesis by simp
    next
      case (Some e)
      with Pair have "is_TwitchCommandError e"
        using add_command_error_class by blast
      with Pair Some 3 show ?thesis by simp
    qed
  qed
qed

theorem init_commands_registers_every_member_witness:
  "fst (init_commands bot0
          [(''cmd_a'', CommandObj (simple_command ''hello'' [])),
           (''cmd_b'', CommandObj (simple_command ''hello'' [])),
           (''nick'', OtherObj),
           (''zcmd'', CommandObj (simple_command ''bye'' []))]) = None
   \<and> map fst (commands (snd (init_commands bot0
          [(''cmd_a'', CommandObj (simple_command ''hello'' [])),
           (''cmd_b'', CommandObj (simple_command ''hello'' [])),
           (''nick'', OtherObj),
           (''zcmd'', CommandObj (simple_command ''bye'' []))]))) = [''hello'', ''bye'']
   \<and> printed (snd (init_commands bot0
          [(''cmd_a'', CommandObj (simple_command ''hello'' [])),
           (''cmd_b'', CommandObj (simple_command ''hello'' [])),
           (''nick'', OtherObj),
           (''zcmd'', CommandObj (simple_command ''bye'' []))]))
       = [TwitchCommandError ''hello'' NameExists]"
  using init_commands_registers_every_member
          [of bot0 "[(''cmd_a'', CommandObj (simple_command ''hello'' [])),
                     (''cmd_b'', CommandObj (simple_command ''hello'' [])),
                     (''nick'', OtherObj),
                     (''zcmd'', CommandObj (simple_command ''bye'' []))]"]
  by (simp add: bot0_def simple_command_def add_command_def has_key_def)

section \<open>Events\<close>

text \<open>
  C9, evaluated where it fails. \<open>add_event\<close> tests \<open>inspect.iscoroutine(callback)\<close>, which
  is False on every \<open>async def\<close> function, so each such callback is refused with
  ValueError and the bot is left as it was.
\<close>

theorem add_event_rejects_async_def:
  "add_event b (async_handler nm f) ev = (Some ValueError, b)"
  by (simp add: add_event_def iscoroutine_def async_handler_def)

section \<open>What run\_event and the hooks leave alone\<close>

lemma create_task_fields:
  "tasks (create_task b t) = tasks b @ [t]"
  "published (create_task b t) = published b"
  "calls (create_task b t) = calls b"
  "events (create_task b t) = events b"
  "attrs (create_task b t) = attrs b"
  "global_after_invoke (create_task b t) = global_after_invoke b"
  by (simp_all add: create_task_def)

lemma create_tasks_fields:
  "tasks (foldl (\<lambda>s h. create_task s (Wrapped h args)) b hs)
     = tasks b @ map (\<lambda>h. Wrapped h args) hs"
  "published (foldl (\<lambda>s h. create_task s (Wrapped h args)) b hs) = published b"
  "calls (foldl (\<lambda>s h. create_task s (Wrapped h args)) b hs) = calls b"
  "events (foldl (\<lambda>s h. create_task s (Wrapped h args)) b hs) = events b"
  "attrs (foldl (\<lambda>s h. create_task s (Wrapped h args)) b hs) = attrs b"
  "global_after_invoke (foldl (\<lambda>s h. create_task s (Wrapped h args)) b hs)
     = global_after_invoke b"
  by (induction hs arbitrary: b) (simp_all add: create_task_def)

lemma run_event_published: "published (run_event b nm args) = published b @ [(nm, args)]"
  by (simp add: run_event_def Let_def create_tasks_fields create_task_fields
           split: option.splits)

lemma run_event_calls: "calls (run_event b nm args) = calls b"
  by (simp add: run_event_def Let_def create_tasks_fields create_task_fields
           split: option.splits)

lemma run_event_events: "events (run_event b nm args) = events b"
  by (simp add: run_event_def Let_def create_tasks_fields create_task_fields
           split: option.splits)

lemma run_event_attrs: "attrs (run_event b nm args) = attrs b"
  by (simp add: run_event_def Let_def create_tasks_fields create_task_fields
           split: option.splits)

lemma run_event_global_after:
  "global_after_invoke (run_event b nm args) = global_after_invoke b"
  by (simp add: run_event_def Let_def create_tasks_fields create_task_fields
           split: option.splits)

lemma run_event_tasks:
  "tasks (run_event b nm args) =
     tasks b
     @ (case map_of (attrs b) nm of
          None \<Rightarrow> []
        | Some cb \<Rightarrow> if iscoroutine cb then [Wrapped cb args] else [])
     @ map (\<lambda>h. Wrapped h args) (case map_of (events b) nm of None \<Rightarrow> [] | Some hs \<Rightarrow> hs)"
  by (simp add: run_event_def Let_def create_tasks_fields create_task_fields
           split: option.splits)

lemma try_run_calls: "calls (try_run b ctx tc r) = calls b"
  by (simp add: try_run_def run_event_calls split: option.splits)

lemma called_calls: "calls (called b c) = calls b @ [c]"
  by (simp add: called_def)

lemma run_callback_calls:
  "calls (run_callback b ctx c) =
     calls b @ [CalledGlobalBefore]
     @ (case cmd_before_invoke c of None \<Rightarrow> [] | Some _ \<Rightarrow> [CalledBefore (cmd_name c)])
     @ [CalledCallback (cmd_name c)]
     @ (case cmd_callback c (ctx_message ctx) of
          None \<Rightarrow> []
        | Some e \<Rightarrow> (case cmd_event_error c of
                       None \<Rightarrow> []
                     | Some _ \<Rightarrow> [CalledErrorHook (cmd_name c)]))
     @ (case cmd_after_invoke c of None \<Rightarrow> [] | Some _ \<Rightarrow> [CalledAfter (cmd_name c)])
     @ [CalledGlobalAfter]"
  by (simp add: run_callback_def Let_def try_run_calls called_calls run_event_calls
           split: option.splits)

lemma called_fields:
  "published (called b c) = published b"
  "global_after_invoke (called b c) = global_after_invoke b"
  by (simp_all add: called_def)

lemma try_run_global_after:
  "global_after_invoke (try_run b ctx tc r) = global_after_invoke b"
  by (simp add: try_run_def run_event_global_after split: option.splits)

lemma try_run_published:
  "published (try_run b ctx True r) =
     published b
     @ (case r of None \<Rightarrow> [] | Some e \<Rightarrow> [(''command_error'', [ArgContext ctx, ArgError e])])"
  "published (try_run b ctx False r) =
     published b @ (case r of None \<Rightarrow> [] | Some e \<Rightarrow> [(''error'', [ArgError e])])"
  by (simp_all add: try_run_def run_event_published split: option.splits)

lemma run_callback_published:
  "published (run_callback b ctx c) =
     published b
     @ (case global_before_invoke b (ctx_message ctx) of
          None \<Rightarrow> [] | Some e \<Rightarrow> [(''error'', [ArgError e])])
     @ (case cmd_before_invoke c of
          None \<Rightarrow> []
        | Some hook \<Rightarrow>
            (case hook (ctx_message ctx) of
               None \<Rightarrow> []
             | Some e \<Rightarrow> [(''command_error'', [ArgContext ctx, ArgError e])]))
     @ (case cmd_callback c (ctx_message ctx) of
          None \<Rightarrow> []
        | Some e \<Rightarrow>
            (case cmd_event_error c of
               None \<Rightarrow> []
             | Some hook \<Rightarrow>
                 (case hook (ctx_message ctx) e of
                    None \<Rightarrow> [] | Some e' \<Rightarrow> [(''error'', [ArgError e'])]))
            @ [(''command_error'', [ArgContext ctx, ArgError e])])
     @ (case cmd_after_invoke c of
          None \<Rightarrow> []
        | Some hook \<Rightarrow>
            (case hook (ctx_message ctx) of
               None \<Rightarrow> []
             | Some e \<Rightarrow> [(''command_error'', [ArgContext ctx, ArgError e])]))
     @ (case global_after_invoke b (ctx_message ctx) of
          None \<Rightarrow> [] | Some e \<Rightarrow> [(''error'', [ArgError e])])"
  by (cases "cmd_before_invoke c"; cases "cmd_callback c (ctx_message ctx)";
      cases "cmd_event_error c"; cases "cmd_after_invoke c";
      simp add: run_callback_def Let_def try_run_published called_fields run_event_published
                try_run_global_after run_event_global_after)

section \<open>Dispatch of one message\<close>

text \<open>
  C1 as stated fails: with prefix \<open>!\<close> and nothing registered, the message \<open>!foo\<close> makes
  \<open>handle_commands\<close> raise CommandNotFound to its caller, and no event is published.
\<close>

theorem handle_commands_unknown_raises_counterexample:
  "fst (handle_commands one_token bot0 \<lparr>content = ''!foo''\<rparr>)
     = Some (CommandNotFound (Some ''foo''))
   \<and> published (snd (handle_commands one_token bot0 \<lparr>content = ''!foo''\<rparr>)) = []"
  by (simp add: handle_commands_def get_context_def get_prefix_def get_prefixes_def
                bot0_def startswith_def no_prefix_def one_token_def)

text \<open>
  C1 as amended: when \<open>get_prefix\<close> selects a non-empty prefix and the first token of the
  rest resolves (through the aliases, as \<open>get_command\<close> resolves it) to no registered
  command, \<open>handle_commands\<close> raises CommandNotFound naming the resolved token, and the
  bot is exactly as before: nothing published, nothing scheduled, no user code called.
\<close>

theorem handle_commands_unknown_command_raises:
  assumes "get_prefix b m = Inr (Some p)" and "p \<noteq> []"
    and "process_string (dropWhile (\<lambda>ch. ch = CHR '' '') (drop (length p) (content m)))
           = Inr parsed"
    and "map_of parsed 0 = Some tok"
    and "get_command b tok = None"
  shows "handle_commands process_string b m =
           (Some (CommandNotFound
                    (Some (case map_of (command_aliases b) tok of
                             None \<Rightarrow> tok | Some n \<Rightarrow> n))), b)"
  using assms
  by (simp add: handle_commands_def get_context_def no_prefix_def get_command_def Let_def)

theorem handle_commands_unknown_command_raises_witness:
  "handle_commands one_token bot0 \<lparr>content = ''!foo''\<rparr>
     = (Some (CommandNotFound (Some ''foo'')), bot0)"
proof -
  have p: "get_prefix bot0 \<lparr>content = ''!foo''\<rparr> = Inr (Some ''!'')"
    by (simp add: get_prefix_def get_prefixes_def bot0_def startswith_def)
  have t: "one_token (dropWhile (\<lambda>ch. ch = CHR '' '')
             (drop (length ''!'') (content \<lparr>content = ''!foo''\<rparr>))) = Inr [(0, ''foo'')]"
    by (simp add: one_token_def)
  have g: "get_command bot0 ''foo'' = None"
    by (simp add: get_command_def bot0_def)
  have a: "map_of (command_aliases bot0) ''foo'' = None"
    by (simp add: bot0_def)
  show ?thesis
    using handle_commands_unknown_command_raises
            [of bot0 "\<lparr>content = ''!foo''\<rparr>" "''!''" one_token "[(0, ''foo'')]" "''foo''"]
          p t g a
    by simp
qed

section \<open>The hooks around the callback\<close>

lemmas run_one_message =
  handle_commands_def get_context_def get_prefix_def get_prefixes_def bot0_def
  startswith_def no_prefix_def one_token_def bot_with_def add_command_def has_key_def
  simple_command_def invoke_def handle_checks_def effective_checks_def run_cooldowns_def
  run_callback_def try_run_def called_def run_event_def Let_def eval_check_def
  async_def_def sync_def_def create_task_def

text \<open>
  C3 as stated fails: the callback of \<open>boom\<close> raises, and the command's after-invoke hook
  and \<open>global_after_invoke\<close> are both called all the same.
\<close>

theorem after_hooks_after_raising_callback_counterexample:
  "cmd_callback raising_command \<lparr>content = ''!boom''\<rparr> = Some (UserError ''failed'')
   \<and> calls (snd (handle_commands one_token (bot_with [raising_command])
                    \<lparr>content = ''!boom''\<rparr>))
       = [CalledGlobalBefore, CalledCallback ''boom'', CalledAfter ''boom'', CalledGlobalAfter]"
  by (simp add: run_one_message raising_command_def)

text \<open>
  C3 as amended: in every invocation that passes the checks and the cooldowns, whether
  the callback returns or raises, the command's after-invoke hook (when it has one) is
  called after the callback and then \<open>global_after_invoke\<close> is called. A raising callback
  adds the call of the command's error hook (when it has one) right after the callback,
  and the publication of one \<open>command_error\<close> event carrying the callback's exception;
  whatever a failing after-hook publishes comes after that event. The user code called by
  one invocation and the events it publishes, each in order:
\<close>

theorem after_hooks_run_whatever_the_callback_does:
  assumes "\<not> no_prefix (ctx_prefix ctx)" and "ctx_command ctx = Some c"
    and "handle_checks b ctx = (Inr CheckTrue, b1)"
    and "run_cooldowns b1 ctx = (Inr lim, b2)" and "lim = None \<or> lim = Some []"
  shows "fst (invoke b ctx) = None
     \<and> calls (snd (invoke b ctx)) =
       calls b2 @ [CalledGlobalBefore]
       @ (case cmd_before_invoke c of None \<Rightarrow> [] | Some _ \<Rightarrow> [CalledBefore (cmd_name c)])
       @ [CalledCallback (cmd_name c)]
       @ (case cmd_callback c (ctx_message ctx) of
            None \<Rightarrow> []
          | Some e \<Rightarrow> (case cmd_event_error c of
                         None \<Rightarrow> []
                       | Some _ \<Rightarrow> [CalledErrorHook (cmd_name c)]))
       @ (case cmd_after_invoke c of None \<Rightarrow> [] | Some _ \<Rightarrow> [CalledAfter (cmd_name c)])
       @ [CalledGlobalAfter]
     \<and> published (snd (invoke b ctx)) =
       published b2
       @ (case global_before_invoke b2 (ctx_message ctx) of
            None \<Rightarrow> [] | Some e \<Rightarrow> [(''error'', [ArgError e])])
       @ (case cmd_before_invoke c of
            None \<Rightarrow> []
          | Some hook \<Rightarrow>
              (case hook (ctx_message ctx) of
                 None \<Rightarrow> []
               | Some e \<Rightarrow> [(''command_error'', [ArgContext ctx, ArgError e])]))
       @ (case cmd_callback c (ctx_message ctx) of
            None \<Rightarrow> []
          | Some e \<Rightarrow>
              (case cmd_event_error c of
                 None \<Rightarrow> []
               | Some hook \<Rightarrow>
                   (case hook (ctx_message ctx) e of
                      None \<Rightarrow> [] | Some e' \<Rightarrow> [(''error'', [ArgError e'])]))
              @ [(''command_error'', [ArgContext ctx, ArgError e])])
       @ (case cmd_after_invoke c of
            None \<Rightarrow> []
          | Some hook \<Rightarrow>
              (case hook (ctx_message ctx) of
                 None \<Rightarrow> []
               | Some e \<Rightarrow> [(''command_error'', [ArgContext ctx, ArgError e])]))
       @ (case global_after_invoke b2 (ctx_message ctx) of
            None \<Rightarrow> [] | Some e \<Rightarrow> [(''error'', [ArgError e])])"
proof -
  from assms have r: "invoke b ctx = (None, run_callback b2 ctx c)"
    by (auto simp: invoke_def)
  show ?thesis
    unfolding r by (simp only: fst_conv snd_conv run_callback_calls run_callback_published)
qed

theorem after_hooks_run_whatever_the_callback_does_witness:
  "fst (invoke bot0 (context_for raising_command ''!boom'')) = None
   \<and> calls (snd (invoke bot0 (context_for raising_command ''!boom'')))
       = [CalledGlobalBefore, CalledCallback ''boom'', CalledAfter ''boom'', CalledGlobalAfter]
   \<and> published (snd (invoke bot0 (context_for raising_command ''!boom'')))
       = [(''command_error'',
           [ArgContext (context_for raising_command ''!boom''), ArgError (UserError ''failed'')])]"
proof -
  have 1: "\<not> no_prefix (ctx_prefix (context_for raising_command ''!boom''))"
    by (simp add: context_for_def no_prefix_def)
  have 2: "ctx_command (context_for raising_command ''!boom'') = Some raising_command"
    by (simp add: context_for_def)
  have 3: "handle_checks bot0 (context_for raising_command ''!boom'') = (Inr CheckTrue, bot0)"
    by (simp add: handle_checks_def context_for_def raising_command_def simple_command_def
                  effective_checks_def bot0_def)
  have 4: "run_cooldowns bot0 (context_for raising_command ''!boom'') = (Inr None, bot0)"
    by (simp add: run_cooldowns_def context_for_def raising_command_def simple_command_def)
  have c: "cmd_before_invoke raising_command = None"
          "cmd_event_error raising_command = None"
          "cmd_after_invoke raising_command = Some (\<lambda>_. None)"
          "cmd_callback raising_command = (\<lambda>_. Some (UserError ''failed''))"
          "cmd_name raising_command = ''boom''"
    by (simp_all add: raising_command_def simple_command_def)
  have n: "calls bot0 = []" "published bot0 = []"
          "global_before_invoke bot0 = (\<lambda>_. None)" "global_after_invoke bot0 = (\<lambda>_. None)"
    by (simp_all add: bot0_def)
  show ?thesis
    using after_hooks_run_whatever_the_callback_does [OF 1 2 3 4]
    by (simp add: c n)
qed

section \<open>Checks\<close>

text \<open>
  C4, evaluated where it fails. The only check of \<open>hello\<close> is an \<open>async def\<close> predicate
  that resolves to False. \<open>inspect.isawaitable\<close> is False on the function, so it is called
  without \<open>await\<close>, the coroutine object it returns is not the object False, the check
  passes and the callback is called; no \<open>command_error\<close> is published.
\<close>

theorem async_check_resolving_false_does_not_block:
  "fst (handle_commands one_token
          (bot_with [checked_command [async_def ''is_mod'' (\<lambda>_. Inr (PyBool False))]])
          \<lparr>content = ''!hello''\<rparr>) = None
   \<and> calls (snd (handle_commands one_token
          (bot_with [checked_command [async_def ''is_mod'' (\<lambda>_. Inr (PyBool False))]])
          \<lparr>content = ''!hello''\<rparr>))
       = [CalledCheck ''is_mod'', CalledGlobalBefore, CalledCallback ''hello'', CalledGlobalAfter]
   \<and> published (snd (handle_commands one_token
          (bot_with [checked_command [async_def ''is_mod'' (\<lambda>_. Inr (PyBool False))]])
          \<lparr>content = ''!hello''\<rparr>)) = []"
  by (simp add: run_one_message checked_command_def)

lemma run_checks_passing:
  "list_all (\<lambda>q. check_passes q m) ps \<Longrightarrow>
   run_checks b cn m (ps @ qs) =
     run_checks (b\<lparr>calls := calls b @ map (\<lambda>q. CalledCheck (pred_repr q)) ps\<rparr>) cn m qs"
proof (induction ps arbitrary: b)
  case Nil
  then show ?case by simp
next
  case (Cons a ps)
  then show ?case
    by (auto simp: check_passes_def Let_def split: sum.splits)
qed

lemma run_checks_stops:
  assumes "list_all (\<lambda>q. check_passes q m) ps"
  shows "eval_check p m = Inr (PyBool False) \<Longrightarrow>
          run_checks b cn m (ps @ p # qs) =
            (CheckError (CheckFailure (pred_repr p) cn),
             b\<lparr>calls := calls b @ map (\<lambda>q. CalledCheck (pred_repr q)) (ps @ [p])\<rparr>)"
    and "eval_check p m = Inl e \<Longrightarrow>
          run_checks b cn m (ps @ p # qs) =
            (CheckError e,
             b\<lparr>calls := calls b @ map (\<lambda>q. CalledCheck (pred_repr q)) (ps @ [p])\<rparr>)"
  using assms by (simp_all add: run_checks_passing Let_def)

text \<open>
  C7: let \<open>p\<close> be a check of the effective list that is reached (the checks before it
  pass). If calling \<open>p\<close> returns False, \<open>invoke\<close> returns normally having published exactly
  one event, \<open>command_error\<close> with a CheckFailure naming \<open>p\<close> and the command; if \<open>p\<close> raises
  \<open>e\<close>, the one event carries \<open>e\<close> itself. In both cases the only user code called is the
  checks up to \<open>p\<close>: no hook and no callback.
\<close>

theorem failed_check_blocks_callback:
  assumes "\<not> no_prefix (ctx_prefix ctx)" and "ctx_command ctx = Some c"
    and "effective_checks b c = ps @ p # qs"
    and "list_all (\<lambda>q. check_passes q (ctx_message ctx)) ps"
  shows "(eval_check p (ctx_message ctx) = Inr (PyBool False) \<longrightarrow>
            fst (invoke b ctx) = None
          \<and> published (snd (invoke b ctx)) =
              published b @ [(''command_error'',
                 [ArgContext ctx, ArgError (CheckFailure (pred_repr p) (cmd_name c))])]
          \<and> calls (snd (invoke b ctx)) =
              calls b @ map (\<lambda>q. CalledCheck (pred_repr q)) (ps @ [p]))
       \<and> (\<forall>e. eval_check p (ctx_message ctx) = Inl e \<longrightarrow>
            fst (invoke b ctx) = None
          \<and> published (snd (invoke b ctx)) =
              published b @ [(''command_error'', [ArgContext ctx, ArgError e])]
          \<and> calls (snd (invoke b ctx)) =
              calls b @ map (\<lambda>q. CalledCheck (pred_repr q)) (ps @ [p]))"
  using assms
  by (auto simp: invoke_def handle_checks_def run_checks_stops run_event_published
                 run_event_calls)

theorem failed_check_blocks_callback_witness:
  "(fst (invoke bot0 denied_ctx) = None
    \<and> published (snd (invoke bot0 denied_ctx)) =
        [(''command_error'', [ArgContext denied_ctx, ArgError (CheckFailure ''is_mod'' ''hello'')])]
    \<and> calls (snd (invoke bot0 denied_ctx)) = [CalledCheck ''is_mod''])
   \<and> (fst (invoke bot0 broken_ctx) = None
    \<and> published (snd (invoke bot0 broken_ctx)) =
        [(''command_error'', [ArgContext broken_ctx, ArgError (UserError ''db down'')])]
    \<and> calls (snd (invoke bot0 broken_ctx)) = [CalledCheck ''is_mod''])"
proof -
  let ?p = "sync_def ''is_mod'' (\<lambda>_. Inr (PyBool False))"
  let ?q = "sync_def ''is_mod'' (\<lambda>_. Inl (UserError ''db down''))"
  have d1: "\<not> no_prefix (ctx_prefix denied_ctx)"
    by (simp add: denied_ctx_def context_for_def no_prefix_def)
  have d2: "ctx_command denied_ctx = Some (checked_command [?p])"
    by (simp add: denied_ctx_def context_for_def)
  have d3: "effective_checks bot0 (checked_command [?p]) = [] @ ?p # []"
    by (simp add: effective_checks_def checked_command_def simple_command_def bot0_def)
  have d4: "eval_check ?p (ctx_message denied_ctx) = Inr (PyBool False)"
    by (simp add: eval_check_def sync_def_def)
  have b1: "\<not> no_prefix (ctx_prefix broken_ctx)"
    by (simp add: broken_ctx_def context_for_def no_prefix_def)
  have b2: "ctx_command broken_ctx = Some (checked_command [?q])"
    by (simp add: broken_ctx_def context_for_def)
  have b3: "effective_checks bot0 (checked_command [?q]) = [] @ ?q # []"
    by (simp add: effective_checks_def checked_command_def simple_command_def bot0_def)
  have b4: "eval_check ?q (ctx_message broken_ctx) = Inl (UserError ''db down'')"
    by (simp add: eval_check_def sync_def_def)
  have n: "published bot0 = []" "calls bot0 = []"
    by (simp_all add: bot0_def)
  have c: "cmd_name (checked_command [?p]) = ''hello''" "cmd_name (checked_command [?q]) = ''hello''"
          "pred_repr ?p = ''is_mod''" "pred_repr ?q = ''is_mod''"
    by (simp_all add: checked_command_def simple_command_def sync_def_def)
  show ?thesis
    using failed_check_blocks_callback [OF d1 d2 d3] failed_check_blocks_callback [OF b1 b2 b3]
          d4 b4
    by (simp add: n c)
qed

section \<open>Cooldowns\<close>





section \<open>Publishing an event\<close>

text \<open>
  C5: \<open>run_event\<close> appends to the loop's queue one wrapped task per subscriber of the
  event, in the order of the subscriber list (after the task of the bot's own attribute of
  that name, when that is a coroutine). When such a task runs and its subscriber raises
  \<open>e\<close>, the wrapper publishes the event \<open>error\<close> with \<open>e\<close>, every task that was queued is
  still queued, in the same order, and the subscriber lists are as they were; when the
  subscriber returns, nothing changes.
\<close>

theorem publish_schedules_subscribers_in_order:
  assumes "map_of (events b) nm = Some hs"
  shows "tasks (run_event b nm args) =
           tasks b
           @ (case map_of (attrs b) nm of
                None \<Rightarrow> []
              | Some cb \<Rightarrow> if iscoroutine cb then [Wrapped cb args] else [])
           @ map (\<lambda>h. Wrapped h args) hs
       \<and> (\<forall>s h e. await_call h args = Some e \<longrightarrow>
             run_task s (Wrapped h args) = run_event s ''error'' [ArgError e]
           \<and> published (run_task s (Wrapped h args))
               = published s @ [(''error'', [ArgError e])]
           \<and> take (length (tasks s)) (tasks (run_task s (Wrapped h args))) = tasks s
           \<and> events (run_task s (Wrapped h args)) = events s)
       \<and> (\<forall>s h. await_call h args = None \<longrightarrow> run_task s (Wrapped h args) = s)"
  using assms
  by (simp add: run_event_tasks run_task_def run_event_published run_event_events)

theorem publish_schedules_subscribers_in_order_witness:
  "tasks (run_event two_subscribers ''event_join'' [ArgData ''chan''])
     = [Wrapped first_handler [ArgData ''chan''], Wrapped second_handler [ArgData ''chan'']]
   \<and> published (run_task (run_event two_subscribers ''event_join'' [ArgData ''chan''])
                   (Wrapped first_handler [ArgData ''chan'']))
      = [(''event_join'', [ArgData ''chan'']), (''error'', [ArgError (UserError ''bad'')])]
   \<and> tasks (run_task (run_event two_subscribers ''event_join'' [ArgData ''chan''])
               (Wrapped first_handler [ArgData ''chan'']))
      = [Wrapped first_handler [ArgData ''chan''], Wrapped second_handler [ArgData ''chan'']]"
proof -
  have e: "map_of (events two_subscribers) ''event_join''
             = Some [first_handler, second_handler]"
    by (simp add: two_subscribers_def)
  have a: "await_call first_handler [ArgData ''chan''] = Some (UserError ''bad'')"
    by (simp add: await_call_def first_handler_def async_handler_def)
  have at: "map_of (attrs two_subscribers) ''event_join'' = None"
           "map_of (attrs two_subscribers) ''error'' = None"
           "map_of (events two_subscribers) ''error'' = None"
           "tasks two_subscribers = []" "published two_subscribers = []"
    by (simp_all add: two_subscribers_def bot0_def)
  note t = publish_schedules_subscribers_in_order [OF e, of "[ArgData ''chan'']"]
  from t have t1: "tasks (run_event two_subscribers ''event_join'' [ArgData ''chan''])
     = [Wrapped first_handler [ArgData ''chan''], Wrapped second_handler [ArgData ''chan'']]"
    using at by simp
  from t a have t2:
    "run_task (run_event two_subscribers ''event_join'' [ArgData ''chan''])
              (Wrapped first_handler [ArgData ''chan''])
       = run_event (run_event two_subscribers ''event_join'' [ArgData ''chan''])
                   ''error'' [ArgError (UserError ''bad'')]"
    by blast
  show ?thesis
    using t1 at
    by (simp add: t2 run_event_published run_event_tasks run_event_events run_event_attrs)
qed

section \<open>Reloading a module\<close>

text \<open>
  C8, evaluated where it fails. The module \<open>plugin\<close> is loaded and one command, \<open>hello\<close>,
  is registered. \<open>reload_module\<close> pops the module record, then iterates \<open>self._commands\<close>
  itself rather than its items: unpacking the key \<open>hello\<close> into two variables raises
  ValueError before the \<open>try\<close> is entered. Nothing is restored: the call ends with the
  record of \<open>plugin\<close> gone from \<open>_modules\<close>, whatever the import would have done.
\<close>

theorem reload_module_loses_module_record:
  "reload_module env bot_with_plugin ''plugin''
     = (Some ValueError, bot_with_plugin\<lparr>modules := []\<rparr>)"
  by (simp add: reload_module_def bot_with_plugin_def bot_with_def bot0_def add_command_def
                simple_command_def has_key_def scan_keys_def)

end
